theory Spec2Isabelle
  imports Main
begin

section \<open>Named WebSockets: the per-channel broadcast hub of socket.go\<close>

text \<open>
  A shallow embedding of \<^verbatim>\<open>socket.go\<close>. Each Go function becomes a HOL function over
  an explicit hub state. Pointers to connections are modelled by the connection record
  itself; the code never compares two \<^verbatim>\<open>*Connection\<close> pointers, only their \<^verbatim>\<open>ws\<close>
  fields, so the stream handle is the identity of a connection. Writes to a stream
  are recorded as the frames handed to the transport; whether the transport then
  succeeds is outside the hub, and the code discards that result.
\<close>

subsection \<open>Constants (socket.go, lines 11-23)\<close>

text \<open>Durations are Go's \<^verbatim>\<open>time.Duration\<close>: a signed 64-bit count of nanoseconds.\<close>

definition Second :: int where
  "Second = 1000000000"

definition writeWait :: int where
  "writeWait = 10 * Second"

definition pongWait :: int where
  "pongWait = 60 * Second"

definition pingPeriod :: int where
  "pingPeriod = (pongWait * 9) div 10"

definition maxMessageSize :: int where
  "maxMessageSize = 1024"

subsection \<open>Data model (socket.go, lines 25-49)\<close>

record Connection =
  ws :: nat
  isProxy :: bool

record WSMessage =
  source :: Connection
  payload :: string

text \<open>
  A buffered Go channel of message pointers: the queued messages in arrival order, the
  capacity given to \<^verbatim>\<open>make\<close>, and whether \<^verbatim>\<open>close\<close> has been called on it.
\<close>

record chan =
  chan_queue :: "WSMessage list"
  chan_cap :: nat
  chan_closed :: bool

record NamedWebSocket =
  serviceName :: string
  connections :: "Connection list"
  broadcastBuffer :: chan
  controlBuffer :: chan
  discoveryClient :: "string option"

text \<open>The ways a call can fail to run to its end.\<close>

datatype fault =
    NilDereference
  | SendOnClosedChannel
  | WouldBlock

datatype msg_type = TextMessage | CloseMessage | PingMessage

text \<open>A frame handed to the transport by \<^verbatim>\<open>write\<close>, with the write deadline it was given
  (relative to the time of the call).\<close>

record Frame =
  target :: Connection
  writeDeadline :: int
  mtype :: msg_type
  body :: string

datatype effect =
    Write Frame
  | HttpError string nat
  | LogLine string
  | CloseStream nat
  | SetReadLimit nat int
  | SetReadDeadline nat int
  | SetPongHandler nat int
  | NewTicker int
  | TickerStop

text \<open>Whether a loop is still running after the events it was given, or has returned.\<close>

datatype loop_status = Continue | Return

subsection \<open>Go channel operations\<close>

definition make_chan :: "nat \<Rightarrow> chan" where
  "make_chan n = \<lparr>chan_queue = [], chan_cap = n, chan_closed = False\<rparr>"

text \<open>
  \<^verbatim>\<open>ch <- m\<close>: panics on a closed channel; on a full buffer the sender is suspended, which
  a sequential run reports as \<open>WouldBlock\<close>; otherwise the message joins the queue's end.
\<close>

definition send :: "chan \<Rightarrow> WSMessage \<Rightarrow> fault + chan" where
  "send ch m =
     (if chan_closed ch then Inl SendOnClosedChannel
      else if chan_cap ch \<le> length (chan_queue ch) then Inl WouldBlock
      else Inr (ch\<lparr>chan_queue := chan_queue ch @ [m]\<rparr>))"

text \<open>
  \<^verbatim>\<open>m, ok := <-ch\<close>: the head of the queue with \<open>ok = True\<close>; on a closed and drained
  channel the zero value (a nil pointer, \<open>None\<close>) with \<open>ok = False\<close>; on an open empty
  channel the receive is not ready (\<open>None\<close> as the whole result).
\<close>

definition recv :: "chan \<Rightarrow> (WSMessage option \<times> bool \<times> chan) option" where
  "recv ch =
     (case chan_queue ch of
        m # ms \<Rightarrow> Some (Some m, True, ch\<lparr>chan_queue := ms\<rparr>)
      | [] \<Rightarrow> if chan_closed ch then Some (None, False, ch) else None)"

subsection \<open>NewNamedWebSocket and advertise (lines 59-89)\<close>

definition NewNamedWebSocket_scope :: "bool \<Rightarrow> string" where
  "NewNamedWebSocket_scope isBroadcast = (if isBroadcast = False then ''local'' else ''broadcast'')"

definition NewNamedWebSocket_log :: "string \<Rightarrow> bool \<Rightarrow> effect" where
  "NewNamedWebSocket_log name isBroadcast =
     LogLine (''New '' @ NewNamedWebSocket_scope isBroadcast @ '' web socket '' @ [CHR 0x27]
              @ name @ [CHR 0x27] @ '' created.'')"

definition NewNamedWebSocket :: "string \<Rightarrow> bool \<Rightarrow> NamedWebSocket" where
  "NewNamedWebSocket name isBroadcast =
     \<lparr>serviceName = name,
      connections = [],
      broadcastBuffer = make_chan 512,
      controlBuffer = make_chan 512,
      discoveryClient = None\<rparr>"

text \<open>
  Modelled from the spec: \<^verbatim>\<open>NewDiscoveryClient\<close> is not in socket.go; the spec describes it
  as a registration of the channel under its service name, so the client is recorded by
  that name.
\<close>

definition NewDiscoveryClient :: "string \<Rightarrow> string" where
  "NewDiscoveryClient name = name"

definition advertise :: "NamedWebSocket \<Rightarrow> NamedWebSocket" where
  "advertise sock =
     (if discoveryClient sock = None
      then sock\<lparr>discoveryClient := Some (NewDiscoveryClient (serviceName sock))\<rparr>
      else sock)"

subsection \<open>write (lines 214-217), named \<open>sock_write\<close> here\<close>

text \<open>Sets the write deadline \<open>writeWait\<close> from now and hands the frame to the stream; the
  result of the transport's write is dropped.\<close>

definition sock_write :: "Connection \<Rightarrow> msg_type \<Rightarrow> string \<Rightarrow> Frame" where
  "sock_write conn mt p = \<lparr>target = conn, writeDeadline = writeWait, mtype = mt, body = p\<rparr>"

subsection \<open>broadcast (lines 221-231)\<close>

fun broadcast_loop :: "Connection list \<Rightarrow> WSMessage \<Rightarrow> Frame list" where
  "broadcast_loop [] m = []"
| "broadcast_loop (conn # rest) m =
     (if ws conn \<noteq> ws (source m) then
        (if isProxy conn \<and> isProxy (source m) then broadcast_loop rest m
         else sock_write conn TextMessage (payload m) # broadcast_loop rest m)
      else broadcast_loop rest m)"

definition broadcast :: "NamedWebSocket \<Rightarrow> WSMessage \<Rightarrow> Frame list" where
  "broadcast sock m = broadcast_loop (connections sock) m"

subsection \<open>addConnection (lines 187-211)\<close>

definition connectPayload :: string where
  "connectPayload = ''____connect''"

fun addConnection_notify :: "Connection \<Rightarrow> Connection list \<Rightarrow> Frame list" where
  "addConnection_notify conn [] = []"
| "addConnection_notify conn (oConn # rest) =
     (if \<not> isProxy conn \<or> (isProxy conn \<and> \<not> isProxy oConn)
      then sock_write conn TextMessage connectPayload # addConnection_notify conn rest
      else addConnection_notify conn rest)"

definition addConnection :: "NamedWebSocket \<Rightarrow> Connection \<Rightarrow> fault + (NamedWebSocket \<times> Frame list)" where
  "addConnection sock conn =
     (let frames = addConnection_notify conn (connections sock) in
      if \<not> isProxy conn then
        (case send (controlBuffer sock) \<lparr>source = conn, payload = ''____connect''\<rparr> of
           Inl f \<Rightarrow> Inl f
         | Inr ch \<Rightarrow>
             Inr (sock\<lparr>controlBuffer := ch, connections := connections sock @ [conn]\<rparr>, frames))
      else Inr (sock\<lparr>connections := connections sock @ [conn]\<rparr>, frames))"

subsection \<open>removeConnection (lines 234-251)\<close>

text \<open>The index of the first connection with the given stream, as the loop with its
  \<^verbatim>\<open>break\<close> finds it.\<close>

fun removeConnection_find :: "Connection list \<Rightarrow> Connection \<Rightarrow> nat \<Rightarrow> nat option" where
  "removeConnection_find [] conn i = None"
| "removeConnection_find (oConn # rest) conn i =
     (if ws oConn = ws conn then Some i else removeConnection_find rest conn (Suc i))"

definition removeConnection_unlink :: "Connection list \<Rightarrow> Connection \<Rightarrow> Connection list" where
  "removeConnection_unlink conns conn =
     (case removeConnection_find conns conn 0 of
        None \<Rightarrow> conns
      | Some i \<Rightarrow> take i conns @ drop (i + 1) conns)"

definition removeConnection :: "NamedWebSocket \<Rightarrow> Connection \<Rightarrow> fault + NamedWebSocket" where
  "removeConnection sock conn =
     (let sock1 = sock\<lparr>connections := removeConnection_unlink (connections sock) conn\<rparr> in
      if \<not> isProxy conn then
        (case send (controlBuffer sock1) \<lparr>source = conn, payload = ''____disconnect''\<rparr> of
           Inl f \<Rightarrow> Inl f
         | Inr ch \<Rightarrow> Inr (sock1\<lparr>controlBuffer := ch\<rparr>))
      else Inr sock1)"

subsection \<open>serve (lines 92-126)\<close>

text \<open>
  The request as \<^verbatim>\<open>serve\<close> reads it: its method and the value of the header
  \<^verbatim>\<open>X-BroadcastWebSocket-Proxy\<close> (empty when the header is missing). The handshake is the
  transport library's; its three outcomes are a parameter of the model.
\<close>

record Request =
  reqMethod :: string
  proxyHeader :: string

datatype upgrade = Upgraded nat | HandshakeError | OtherError string

text \<open>
  The result names the connection for which the two pumps are then started, if one was
  created.
\<close>

definition serve ::
  "NamedWebSocket \<Rightarrow> Request \<Rightarrow> upgrade \<Rightarrow> fault + (Connection option \<times> NamedWebSocket \<times> effect list)" where
  "serve sock r up =
     (if reqMethod r \<noteq> ''GET'' then Inr (None, sock, [HttpError ''Method not allowed'' 405])
      else
        (let proxy = (proxyHeader r = ''true'') in
         case up of
           HandshakeError \<Rightarrow> Inr (None, sock, [])
         | OtherError e \<Rightarrow> Inr (None, sock, [LogLine e])
         | Upgraded w \<Rightarrow>
             (let conn = \<lparr>ws = w, isProxy = proxy\<rparr> in
              case addConnection sock conn of
                Inl f \<Rightarrow> Inl f
              | Inr (sock1, frames) \<Rightarrow> Inr (Some conn, sock1, map Write frames))))"

subsection \<open>readConnectionPump (lines 129-148)\<close>

datatype read_result = ReadOk string | ReadErr

text \<open>
  The calls before the loop: the read limit, the first read deadline, and the pong handler,
  recorded with the duration by which it moves the read deadline on each pong.
\<close>

definition readConnectionPump_setup :: "Connection \<Rightarrow> effect list" where
  "readConnectionPump_setup conn =
     [SetReadLimit (ws conn) maxMessageSize, SetReadDeadline (ws conn) pongWait,
      SetPongHandler (ws conn) pongWait]"

text \<open>The loop over the results of \<^verbatim>\<open>ReadMessage\<close>; when they run out the pump is still
  waiting for the next one.\<close>

fun readConnectionPump_loop ::
  "NamedWebSocket \<Rightarrow> Connection \<Rightarrow> read_result list \<Rightarrow> fault + (loop_status \<times> NamedWebSocket)" where
  "readConnectionPump_loop sock conn [] = Inr (Continue, sock)"
| "readConnectionPump_loop sock conn (ReadErr # rest) = Inr (Return, sock)"
| "readConnectionPump_loop sock conn (ReadOk message # rest) =
     (case send (broadcastBuffer sock) \<lparr>source = conn, payload = message\<rparr> of
        Inl f \<Rightarrow> Inl f
      | Inr ch \<Rightarrow> readConnectionPump_loop (sock\<lparr>broadcastBuffer := ch\<rparr>) conn rest)"

definition readConnectionPump_deferred ::
  "NamedWebSocket \<Rightarrow> Connection \<Rightarrow> fault + (NamedWebSocket \<times> effect list)" where
  "readConnectionPump_deferred sock conn =
     (case removeConnection sock conn of
        Inl f \<Rightarrow> Inl f
      | Inr sock1 \<Rightarrow> Inr (sock1, [CloseStream (ws conn)]))"

definition readConnectionPump ::
  "NamedWebSocket \<Rightarrow> Connection \<Rightarrow> read_result list \<Rightarrow>
   fault + (loop_status \<times> NamedWebSocket \<times> effect list)" where
  "readConnectionPump sock conn reads =
     (case readConnectionPump_loop sock conn reads of
        Inl f \<Rightarrow> Inl f
      | Inr (Continue, sock1) \<Rightarrow> Inr (Continue, sock1, readConnectionPump_setup conn)
      | Inr (Return, sock1) \<Rightarrow>
          (case readConnectionPump_deferred sock1 conn of
             Inl f \<Rightarrow> Inl f
           | Inr (sock2, es) \<Rightarrow> Inr (Return, sock2, readConnectionPump_setup conn @ es)))"

subsection \<open>writeConnectionPump (lines 151-164)\<close>

text \<open>
  One list element per tick of the ticker: whether the transport's write of that probe
  succeeded. The loop body calls \<^verbatim>\<open>write\<close>, which returns nothing, and has no
  \<^verbatim>\<open>break\<close> or \<^verbatim>\<open>return\<close>.
\<close>

fun writeConnectionPump_loop :: "Connection \<Rightarrow> bool list \<Rightarrow> loop_status \<times> Frame list" where
  "writeConnectionPump_loop conn [] = (Continue, [])"
| "writeConnectionPump_loop conn (ok # rest) =
     (case writeConnectionPump_loop conn rest of
        (st, fs) \<Rightarrow> (st, sock_write conn PingMessage [] # fs))"

definition writeConnectionPump_deferred ::
  "NamedWebSocket \<Rightarrow> Connection \<Rightarrow> fault + (NamedWebSocket \<times> effect list)" where
  "writeConnectionPump_deferred sock conn =
     (case removeConnection sock conn of
        Inl f \<Rightarrow> Inl f
      | Inr sock1 \<Rightarrow> Inr (sock1, [TickerStop, CloseStream (ws conn)]))"

definition writeConnectionPump ::
  "NamedWebSocket \<Rightarrow> Connection \<Rightarrow> bool list \<Rightarrow>
   fault + (loop_status \<times> NamedWebSocket \<times> effect list)" where
  "writeConnectionPump sock conn ticks =
     (case writeConnectionPump_loop conn ticks of
        (Continue, fs) \<Rightarrow> Inr (Continue, sock, NewTicker pingPeriod # map Write fs)
      | (Return, fs) \<Rightarrow>
          (case writeConnectionPump_deferred sock conn of
             Inl f \<Rightarrow> Inl f
           | Inr (sock1, es) \<Rightarrow> Inr (Return, sock1, NewTicker pingPeriod # map Write fs @ es)))"

subsection \<open>messageDispatcher (lines 167-184)\<close>

text \<open>Which case of the \<^verbatim>\<open>select\<close> fires in an iteration; Go picks among the ready ones.\<close>

datatype select_case = ControlCase | BroadcastCase

definition messageDispatcher_iter ::
  "select_case \<Rightarrow> NamedWebSocket \<Rightarrow> fault + (loop_status \<times> NamedWebSocket \<times> Frame list)" where
  "messageDispatcher_iter c sock =
     (case c of
        ControlCase \<Rightarrow>
          (case recv (controlBuffer sock) of
             None \<Rightarrow> Inl WouldBlock
           | Some (wsConnect, ok, ch) \<Rightarrow>
               (let sock1 = sock\<lparr>controlBuffer := ch\<rparr> in
                if \<not> ok then
                  (case wsConnect of
                     None \<Rightarrow> Inl NilDereference
                   | Some m \<Rightarrow> Inr (Return, sock1, [sock_write (source m) CloseMessage []]))
                else
                  (case wsConnect of
                     None \<Rightarrow> Inl NilDereference
                   | Some m \<Rightarrow> Inr (Continue, sock1, broadcast sock1 m))))
      | BroadcastCase \<Rightarrow>
          (case recv (broadcastBuffer sock) of
             None \<Rightarrow> Inl WouldBlock
           | Some (wsBroadcast, ok, ch) \<Rightarrow>
               (let sock1 = sock\<lparr>broadcastBuffer := ch\<rparr> in
                if \<not> ok then
                  (case wsBroadcast of
                     None \<Rightarrow> Inl NilDereference
                   | Some m \<Rightarrow> Inr (Return, sock1, [sock_write (source m) CloseMessage []]))
                else
                  (case wsBroadcast of
                     None \<Rightarrow> Inl NilDereference
                   | Some m \<Rightarrow> Inr (Continue, sock1, broadcast sock1 m)))))"

text \<open>The loop along a schedule of select choices; at the schedule's end it is still running.\<close>

fun messageDispatcher ::
  "select_case list \<Rightarrow> NamedWebSocket \<Rightarrow> fault + (loop_status \<times> NamedWebSocket \<times> Frame list)" where
  "messageDispatcher [] sock = Inr (Continue, sock, [])"
| "messageDispatcher (c # cs) sock =
     (case messageDispatcher_iter c sock of
        Inl f \<Rightarrow> Inl f
      | Inr (Return, sock1, fs) \<Rightarrow> Inr (Return, sock1, fs)
      | Inr (Continue, sock1, fs) \<Rightarrow>
          (case messageDispatcher cs sock1 of
             Inl f \<Rightarrow> Inl f
           | Inr (st, sock2, gs) \<Rightarrow> Inr (st, sock2, fs @ gs)))"

subsection \<open>The states the hub's operations can produce\<close>

text \<open>
  Every operation of socket.go on a hub, interleaved in any order with any arguments,
  starting from \<^verbatim>\<open>NewNamedWebSocket\<close>. The rule \<open>unlinked\<close> is the state that other
  goroutines see while \<^verbatim>\<open>removeConnection\<close> is suspended at its send.
\<close>

inductive reachable :: "NamedWebSocket \<Rightarrow> bool" where
  created: "reachable (NewNamedWebSocket name isBroadcast)"
| advertised: "reachable s \<Longrightarrow> reachable (advertise s)"
| served: "reachable s \<Longrightarrow> serve s r up = Inr (c, s', es) \<Longrightarrow> reachable s'"
| added: "reachable s \<Longrightarrow> addConnection s conn = Inr (s', fs) \<Longrightarrow> reachable s'"
| read: "reachable s \<Longrightarrow> readConnectionPump s conn reads = Inr (st, s', es) \<Longrightarrow> reachable s'"
| pinged: "reachable s \<Longrightarrow> writeConnectionPump s conn ticks = Inr (st, s', es) \<Longrightarrow> reachable s'"
| unlinked: "reachable s \<Longrightarrow>
     reachable (s\<lparr>connections := removeConnection_unlink (connections s) conn\<rparr>)"
| removed: "reachable s \<Longrightarrow> removeConnection s conn = Inr s' \<Longrightarrow> reachable s'"
| dispatched: "reachable s \<Longrightarrow> messageDispatcher_iter ch s = Inr (st, s', fs) \<Longrightarrow> reachable s'"

subsection \<open>Auxiliary predicates and example hubs\<close>

definition buffers_open :: "NamedWebSocket \<Rightarrow> bool" where
  "buffers_open s = (\<not> chan_closed (broadcastBuffer s) \<and> \<not> chan_closed (controlBuffer s))"

text \<open>HTTP status codes of the 4xx class.\<close>

definition is_client_error :: "nat \<Rightarrow> bool" where
  "is_client_error code = (400 \<le> code \<and> code < 500)"

text \<open>Two direct clients and two proxies, and the channel \<open>chat\<close> in several states.\<close>

definition clientA :: Connection where
  "clientA = \<lparr>ws = 1, isProxy = False\<rparr>"

definition clientB :: Connection where
  "clientB = \<lparr>ws = 2, isProxy = False\<rparr>"

definition proxyP :: Connection where
  "proxyP = \<lparr>ws = 3, isProxy = True\<rparr>"

definition proxyQ :: Connection where
  "proxyQ = \<lparr>ws = 4, isProxy = True\<rparr>"

definition chat :: NamedWebSocket where
  "chat = NewNamedWebSocket ''chat'' False"

definition chatA :: NamedWebSocket where
  "chatA = chat\<lparr>connections := [clientA]\<rparr>"

definition chatABPQ :: NamedWebSocket where
  "chatABPQ = chat\<lparr>connections := [clientA, clientB, proxyP, proxyQ]\<rparr>"





definition chatB_admitted :: NamedWebSocket where
  "chatB_admitted = chat\<lparr>connections := [clientB], controlBuffer :=
     \<lparr>chan_queue = [\<lparr>source = clientB, payload = ''____connect''\<rparr>],
      chan_cap = 512, chan_closed = False\<rparr>\<rparr>"

definition chat_control_closed :: NamedWebSocket where
  "chat_control_closed =
     chatABPQ\<lparr>controlBuffer := (controlBuffer chatABPQ)\<lparr>chan_closed := True\<rparr>\<rparr>"

definition chat_broadcast_closed :: NamedWebSocket where
  "chat_broadcast_closed =
     chatABPQ\<lparr>broadcastBuffer := (broadcastBuffer chatABPQ)\<lparr>chan_closed := True\<rparr>\<rparr>"

lemmas ex_defs =
  clientA_def clientB_def proxyP_def proxyQ_def chat_def chatA_def chatABPQ_def
  NewNamedWebSocket_def make_chan_def

section \<open>Properties\<close>

subsection \<open>Channel operations\<close>

lemma send_room:
  "\<not> chan_closed ch \<Longrightarrow> length (chan_queue ch) < chan_cap ch \<Longrightarrow>
   send ch m = Inr (ch\<lparr>chan_queue := chan_queue ch @ [m]\<rparr>)"
  by (simp add: send_def)

lemma send_closed: "send ch m = Inr ch' \<Longrightarrow> \<not> chan_closed ch'"
  by (auto simp: send_def split: if_splits)

lemma recv_closed: "recv ch = Some (m, ok, ch') \<Longrightarrow> chan_closed ch' = chan_closed ch"
  by (auto simp: recv_def split: list.splits if_splits)

lemma recv_open: "\<not> chan_closed ch \<Longrightarrow> recv ch = Some (m, ok, ch') \<Longrightarrow> ok \<and> m \<noteq> None"
  by (auto simp: recv_def split: list.splits)

subsection \<open>Broadcast\<close>

text \<open>The loop of \<open>broadcast\<close> writes the payload once to every connection that passes both
  tests, in the order of the connection set.\<close>

lemma broadcast_loop_filter:
  "broadcast_loop conns m =
     map (\<lambda>c. sock_write c TextMessage (payload m))
       (filter (\<lambda>c. ws c \<noteq> ws (source m) \<and> \<not> (isProxy c \<and> isProxy (source m))) conns)"
  by (induction conns) auto

lemma target_sock_write: "target (sock_write c mt p) = c"
  by (simp add: sock_write_def)

text \<open>
  Claim C5 (no self-delivery). For every hub and every message \<open>m\<close>, no frame written by
  \<open>broadcast\<close> goes to the stream of the source of \<open>m\<close>; in particular the source connection
  is never a target.
\<close>

theorem broadcast_no_self_delivery:
  assumes "f \<in> set (broadcast sock m)"
  shows "ws (target f) \<noteq> ws (source m) \<and> target f \<noteq> source m"
  using assms by (auto simp: broadcast_def broadcast_loop_filter target_sock_write)

theorem broadcast_no_self_delivery_witness:
  "sock_write clientB TextMessage ''hi''
     \<in> set (broadcast chatABPQ \<lparr>source = clientA, payload = ''hi''\<rparr>)
   \<and> ws (target (sock_write clientB TextMessage ''hi''))
       \<noteq> ws (source \<lparr>source = clientA, payload = ''hi''\<rparr>)
   \<and> target (sock_write clientB TextMessage ''hi'')
       \<noteq> source \<lparr>source = clientA, payload = ''hi''\<rparr>"
proof -
  have h: "sock_write clientB TextMessage ''hi''
             \<in> set (broadcast chatABPQ \<lparr>source = clientA, payload = ''hi''\<rparr>)"
    by (simp add: broadcast_def ex_defs)
  show ?thesis using h broadcast_no_self_delivery [OF h] by simp
qed

text \<open>
  Claim C4 (proxy loop prevention). When the source of \<open>m\<close> is a proxy, \<open>broadcast\<close> writes
  to no proxy connection. Every connection \<open>r\<close> of the connection set whose stream is not
  the source's, and which is not a proxy facing a proxy source (so client to client,
  client to proxy and proxy to client), is written a text frame whose body is the payload
  of \<open>m\<close>, under the write deadline. Nothing else is written: every frame of the call is
  such a text frame to a member of the connection set, and the frames are exactly one per
  eligible connection, in the order of the set. Connections are told apart by their
  streams, as the code does.
\<close>

theorem broadcast_proxy_loop_prevention:
  "(isProxy (source m) \<longrightarrow> (\<forall>f \<in> set (broadcast sock m). \<not> isProxy (target f))) \<and>
   (\<forall>r \<in> set (connections sock).
      ws r \<noteq> ws (source m) \<and> \<not> (isProxy (source m) \<and> isProxy r) \<longrightarrow>
      \<lparr>target = r, writeDeadline = writeWait, mtype = TextMessage, body = payload m\<rparr>
        \<in> set (broadcast sock m)) \<and>
   (\<forall>f \<in> set (broadcast sock m).
      target f \<in> set (connections sock) \<and> writeDeadline f = writeWait \<and>
      mtype f = TextMessage \<and> body f = payload m) \<and>
   broadcast sock m =
     map (\<lambda>r. \<lparr>target = r, writeDeadline = writeWait, mtype = TextMessage, body = payload m\<rparr>)
       (filter (\<lambda>r. ws r \<noteq> ws (source m) \<and> \<not> (isProxy (source m) \<and> isProxy r))
          (connections sock))"
proof -
  let ?frame = "\<lambda>r. \<lparr>target = r, writeDeadline = writeWait, mtype = TextMessage,
                       body = payload m\<rparr>"
  let ?eligible = "\<lambda>r. ws r \<noteq> ws (source m) \<and> \<not> (isProxy (source m) \<and> isProxy r)"
  have eq: "broadcast sock m = map ?frame (filter ?eligible (connections sock))"
    by (simp add: broadcast_def broadcast_loop_filter sock_write_def conj_commute)
  have skip: "isProxy (source m) \<longrightarrow> (\<forall>f \<in> set (broadcast sock m). \<not> isProxy (target f))"
    unfolding eq by auto
  have deliver: "\<forall>r \<in> set (connections sock). ?eligible r \<longrightarrow> ?frame r \<in> set (broadcast sock m)"
    unfolding eq by auto
  have only: "\<forall>f \<in> set (broadcast sock m).
      target f \<in> set (connections sock) \<and> writeDeadline f = writeWait \<and>
      mtype f = TextMessage \<and> body f = payload m"
    unfolding eq by auto
  show ?thesis using skip deliver only eq by blast
qed

theorem broadcast_proxy_loop_prevention_witness:
  "isProxy (source \<lparr>source = proxyP, payload = ''remote-hi''\<rparr>)
   \<and> \<not> isProxy (target \<lparr>target = clientA, writeDeadline = 10 * Second,
                          mtype = TextMessage, body = ''remote-hi''\<rparr>)
   \<and> clientA \<in> set (connections chatABPQ)
   \<and> ws clientA \<noteq> ws (source \<lparr>source = proxyP, payload = ''remote-hi''\<rparr>)
   \<and> \<not> (isProxy (source \<lparr>source = proxyP, payload = ''remote-hi''\<rparr>) \<and> isProxy clientA)
   \<and> \<lparr>target = clientA, writeDeadline = 10 * Second, mtype = TextMessage,
        body = ''remote-hi''\<rparr>
       \<in> set (broadcast chatABPQ \<lparr>source = proxyP, payload = ''remote-hi''\<rparr>)
   \<and> broadcast chatABPQ \<lparr>source = proxyP, payload = ''remote-hi''\<rparr>
       = [\<lparr>target = clientA, writeDeadline = 10 * Second, mtype = TextMessage,
            body = ''remote-hi''\<rparr>,
          \<lparr>target = clientB, writeDeadline = 10 * Second, mtype = TextMessage,
            body = ''remote-hi''\<rparr>]
   \<and> broadcast chatABPQ \<lparr>source = clientA, payload = ''hi''\<rparr>
       = [\<lparr>target = clientB, writeDeadline = 10 * Second, mtype = TextMessage, body = ''hi''\<rparr>,
          \<lparr>target = proxyP, writeDeadline = 10 * Second, mtype = TextMessage, body = ''hi''\<rparr>,
          \<lparr>target = proxyQ, writeDeadline = 10 * Second, mtype = TextMessage, body = ''hi''\<rparr>]"
  using broadcast_proxy_loop_prevention [of "\<lparr>source = proxyP, payload = ''remote-hi''\<rparr>" chatABPQ]
    broadcast_proxy_loop_prevention [of "\<lparr>source = clientA, payload = ''hi''\<rparr>" chatABPQ]
  by (simp add: ex_defs writeWait_def)

subsection \<open>Removal\<close>











subsection \<open>Admission\<close>

lemma addConnection_notify_map:
  "addConnection_notify conn conns =
     map (\<lambda>oConn. sock_write conn TextMessage ''____connect'')
       (filter (\<lambda>oConn. \<not> isProxy conn \<or> \<not> isProxy oConn) conns)"
  by (induction conns) (auto simp: connectPayload_def)

lemma addConnection_proxy:
  "isProxy conn \<Longrightarrow>
   addConnection sock conn =
     Inr (sock\<lparr>connections := connections sock @ [conn]\<rparr>,
          addConnection_notify conn (connections sock))"
  by (simp add: addConnection_def)

lemma addConnection_client:
  "\<not> isProxy conn \<Longrightarrow> \<not> chan_closed (controlBuffer sock) \<Longrightarrow>
   length (chan_queue (controlBuffer sock)) < chan_cap (controlBuffer sock) \<Longrightarrow>
   addConnection sock conn =
     Inr (sock\<lparr>controlBuffer := (controlBuffer sock)
                 \<lparr>chan_queue := chan_queue (controlBuffer sock)
                      @ [\<lparr>source = conn, payload = ''____connect''\<rparr>]\<rparr>,
               connections := connections sock @ [conn]\<rparr>,
          addConnection_notify conn (connections sock))"
  by (simp add: addConnection_def send_room)

lemma addConnection_Inr:
  assumes "addConnection sock conn = Inr (sock', fs)"
  shows "connections sock' = connections sock @ [conn]"
    and "fs = addConnection_notify conn (connections sock)"
    and "broadcastBuffer sock' = broadcastBuffer sock"
    and "chan_closed (controlBuffer sock') = chan_closed (controlBuffer sock)"
  using assms
  by (auto simp: addConnection_def send_def Let_def split: if_splits sum.splits)

text \<open>
  Claim C6 (visibility rule on admission). The frames that admission writes are all text
  frames to the new connection with the body \<^verbatim>\<open>____connect\<close>, under the write deadline:
  one for each non-proxy connection already in the channel when the new connection is a
  proxy, and one for each connection already in the channel, proxy or not, when it is
  not. The notification loop writes them whatever happens at the later send; and
  admission of a proxy connection, or of a non-proxy connection when the control buffer
  is open and has room, returns with exactly these frames.
\<close>

theorem addConnection_visibility:
  "addConnection_notify conn (connections sock) =
     map (\<lambda>oConn. \<lparr>target = conn, writeDeadline = writeWait, mtype = TextMessage,
                     body = ''____connect''\<rparr>)
       (if isProxy conn then filter (\<lambda>oConn. \<not> isProxy oConn) (connections sock)
        else connections sock)
   \<and> (isProxy conn \<or>
        (\<not> chan_closed (controlBuffer sock) \<and>
         length (chan_queue (controlBuffer sock)) < chan_cap (controlBuffer sock)) \<longrightarrow>
      (case addConnection sock conn of
         Inl f \<Rightarrow> False
       | Inr (sock', fs) \<Rightarrow>
           fs = map (\<lambda>oConn. \<lparr>target = conn, writeDeadline = writeWait, mtype = TextMessage,
                                body = ''____connect''\<rparr>)
                  (if isProxy conn then filter (\<lambda>oConn. \<not> isProxy oConn) (connections sock)
                   else connections sock)))"
proof -
  let ?frames = "map (\<lambda>oConn. \<lparr>target = conn, writeDeadline = writeWait, mtype = TextMessage,
                                 body = ''____connect''\<rparr>)
                   (if isProxy conn then filter (\<lambda>oConn. \<not> isProxy oConn) (connections sock)
                    else connections sock)"
  have n: "addConnection_notify conn (connections sock) = ?frames"
    by (simp add: addConnection_notify_map sock_write_def)
  have r: "case addConnection sock conn of Inl f \<Rightarrow> False | Inr (sock', fs) \<Rightarrow> fs = ?frames"
    if room: "isProxy conn \<or>
              (\<not> chan_closed (controlBuffer sock) \<and>
               length (chan_queue (controlBuffer sock)) < chan_cap (controlBuffer sock))"
  proof (cases "isProxy conn")
    case True
    then show ?thesis using n by (simp add: addConnection_proxy)
  next
    case False
    with room show ?thesis using n by (simp add: addConnection_client)
  qed
  show ?thesis using n r by blast
qed

theorem addConnection_visibility_witness:
  "addConnection_notify \<lparr>ws = 5, isProxy = True\<rparr> (connections chatABPQ)
     = [\<lparr>target = \<lparr>ws = 5, isProxy = True\<rparr>, writeDeadline = 10 * Second,
          mtype = TextMessage, body = ''____connect''\<rparr>,
        \<lparr>target = \<lparr>ws = 5, isProxy = True\<rparr>, writeDeadline = 10 * Second,
          mtype = TextMessage, body = ''____connect''\<rparr>]
   \<and> (isProxy \<lparr>ws = 5, isProxy = True\<rparr> \<or>
      (\<not> chan_closed (controlBuffer chatABPQ) \<and>
       length (chan_queue (controlBuffer chatABPQ)) < chan_cap (controlBuffer chatABPQ)))
   \<and> (case addConnection chatABPQ \<lparr>ws = 5, isProxy = True\<rparr> of
         Inl f \<Rightarrow> False
       | Inr (sock', fs) \<Rightarrow>
           fs = [\<lparr>target = \<lparr>ws = 5, isProxy = True\<rparr>, writeDeadline = 10 * Second,
                   mtype = TextMessage, body = ''____connect''\<rparr>,
                 \<lparr>target = \<lparr>ws = 5, isProxy = True\<rparr>, writeDeadline = 10 * Second,
                   mtype = TextMessage, body = ''____connect''\<rparr>])
   \<and> (case addConnection chatABPQ \<lparr>ws = 5, isProxy = False\<rparr> of
         Inl f \<Rightarrow> False
       | Inr (sock', fs) \<Rightarrow>
           fs = [\<lparr>target = \<lparr>ws = 5, isProxy = False\<rparr>, writeDeadline = 10 * Second,
                   mtype = TextMessage, body = ''____connect''\<rparr>,
                 \<lparr>target = \<lparr>ws = 5, isProxy = False\<rparr>, writeDeadline = 10 * Second,
                   mtype = TextMessage, body = ''____connect''\<rparr>,
                 \<lparr>target = \<lparr>ws = 5, isProxy = False\<rparr>, writeDeadline = 10 * Second,
                   mtype = TextMessage, body = ''____connect''\<rparr>,
                 \<lparr>target = \<lparr>ws = 5, isProxy = False\<rparr>, writeDeadline = 10 * Second,
                   mtype = TextMessage, body = ''____connect''\<rparr>])"
proof -
  have p: "addConnection_notify \<lparr>ws = 5, isProxy = True\<rparr> (connections chatABPQ)
     = [\<lparr>target = \<lparr>ws = 5, isProxy = True\<rparr>, writeDeadline = 10 * Second,
          mtype = TextMessage, body = ''____connect''\<rparr>,
        \<lparr>target = \<lparr>ws = 5, isProxy = True\<rparr>, writeDeadline = 10 * Second,
          mtype = TextMessage, body = ''____connect''\<rparr>]"
    using addConnection_visibility [of "\<lparr>ws = 5, isProxy = True\<rparr>" chatABPQ]
    by (simp add: ex_defs writeWait_def)
  have c: "addConnection_notify \<lparr>ws = 5, isProxy = False\<rparr> (connections chatABPQ)
     = [\<lparr>target = \<lparr>ws = 5, isProxy = False\<rparr>, writeDeadline = 10 * Second,
          mtype = TextMessage, body = ''____connect''\<rparr>,
        \<lparr>target = \<lparr>ws = 5, isProxy = False\<rparr>, writeDeadline = 10 * Second,
          mtype = TextMessage, body = ''____connect''\<rparr>,
        \<lparr>target = \<lparr>ws = 5, isProxy = False\<rparr>, writeDeadline = 10 * Second,
          mtype = TextMessage, body = ''____connect''\<rparr>,
        \<lparr>target = \<lparr>ws = 5, isProxy = False\<rparr>, writeDeadline = 10 * Second,
          mtype = TextMessage, body = ''____connect''\<rparr>]"
    using addConnection_visibility [of "\<lparr>ws = 5, isProxy = False\<rparr>" chatABPQ]
    by (simp add: ex_defs writeWait_def)
  show ?thesis
    unfolding addConnection_def Let_def p c
    by (simp add: ex_defs send_def)
qed

text \<open>
  Claim C7 (append after notifying). Under the same condition admission returns a hub
  whose connection set is the old one with the new connection appended at the end, and
  the frames written are computed from the old set: one per eligible connection of the
  set before admission, hence fewer than the new set has members, and none when the
  channel was empty. The connect message enqueued for the new connection is not sent
  back to it either when \<open>broadcast\<close> relays it over the new set.
\<close>

theorem addConnection_appends_after_notifying:
  assumes "isProxy conn \<or>
           (\<not> chan_closed (controlBuffer sock) \<and>
            length (chan_queue (controlBuffer sock)) < chan_cap (controlBuffer sock))"
  shows "case addConnection sock conn of
           Inl f \<Rightarrow> False
         | Inr (sock', fs) \<Rightarrow>
             connections sock' = connections sock @ [conn]
             \<and> fs = map (\<lambda>oConn. sock_write conn TextMessage ''____connect'')
                      (filter (\<lambda>oConn. \<not> isProxy conn \<or> \<not> isProxy oConn) (connections sock))
             \<and> length fs \<le> length (connections sock)
             \<and> length fs < length (connections sock')
             \<and> (connections sock = [] \<longrightarrow> fs = [])
             \<and> (\<forall>f \<in> set (broadcast sock' \<lparr>source = conn, payload = ''____connect''\<rparr>).
                   ws (target f) \<noteq> ws conn)"
proof -
  obtain sock' fs where r: "addConnection sock conn = Inr (sock', fs)"
    using assms addConnection_proxy [of conn sock] addConnection_client [of conn sock]
    by (cases "isProxy conn") auto
  have c: "connections sock' = connections sock @ [conn]"
    and f: "fs = addConnection_notify conn (connections sock)"
    using addConnection_Inr [OF r] by simp_all
  have f': "fs = map (\<lambda>oConn. sock_write conn TextMessage ''____connect'')
                  (filter (\<lambda>oConn. \<not> isProxy conn \<or> \<not> isProxy oConn) (connections sock))"
    using f by (simp add: addConnection_notify_map)
  have l: "length fs \<le> length (connections sock)"
    unfolding f' by simp
  have l': "length fs < length (connections sock')"
    using l c by simp
  have e: "connections sock = [] \<longrightarrow> fs = []"
    using f' by simp
  have b: "\<forall>f \<in> set (broadcast sock' \<lparr>source = conn, payload = ''____connect''\<rparr>).
             ws (target f) \<noteq> ws conn"
    by (auto simp: broadcast_def broadcast_loop_filter target_sock_write)
  show ?thesis using r c f' l l' e b by simp
qed

theorem addConnection_appends_after_notifying_witness:
  "(isProxy clientB \<or>
      (\<not> chan_closed (controlBuffer chatA) \<and>
       length (chan_queue (controlBuffer chatA)) < chan_cap (controlBuffer chatA)))
   \<and> (case addConnection chatA clientB of
         Inl f \<Rightarrow> False
       | Inr (sock', fs) \<Rightarrow>
           connections sock' = [clientA, clientB]
           \<and> fs = [sock_write clientB TextMessage ''____connect'']
           \<and> broadcast sock' \<lparr>source = clientB, payload = ''____connect''\<rparr>
               = [sock_write clientA TextMessage ''____connect''])"
  using addConnection_appends_after_notifying [of clientB chatA]
  by (simp add: ex_defs addConnection_def send_def broadcast_def)

subsection \<open>The admission endpoint\<close>

text \<open>
  Claim C8 (method check). A request whose method is not \<^verbatim>\<open>GET\<close> is answered with the
  client error 405 and nothing else happens: whatever the handshake would have given, no
  connection is created and the hub, with its connection set and both buffers, is
  returned as it was.
\<close>

theorem serve_rejects_other_methods:
  assumes "reqMethod r \<noteq> ''GET''"
  shows "serve sock r up = Inr (None, sock, [HttpError ''Method not allowed'' 405])
         \<and> is_client_error 405"
  using assms by (simp add: serve_def is_client_error_def)

theorem serve_rejects_other_methods_witness:
  "reqMethod \<lparr>reqMethod = ''POST'', proxyHeader = ''true''\<rparr> \<noteq> ''GET''
   \<and> serve chatABPQ \<lparr>reqMethod = ''POST'', proxyHeader = ''true''\<rparr> (Upgraded 9)
       = Inr (None, chatABPQ, [HttpError ''Method not allowed'' 405])
   \<and> is_client_error 405"
  using serve_rejects_other_methods
    [of "\<lparr>reqMethod = ''POST'', proxyHeader = ''true''\<rparr>" chatABPQ "Upgraded 9"]
  by simp

subsection \<open>Constants\<close>

text \<open>
  Claim C9 (protocol constants). The read deadline is 60 seconds and is the one the read
  pump sets, at its start and again on each pong; the ping period, computed as nine tenths of it, is 54 seconds, the product
  staying within a 64-bit duration; the write deadline is 10 seconds and every frame
  handed over by \<open>sock_write\<close> carries it; the read limit is 1024 bytes; both buffers of a new
  hub have capacity 512.
\<close>

theorem protocol_constants:
  "pongWait = 60 * Second
   \<and> pingPeriod = 54 * Second \<and> 10 * pingPeriod = 9 * pongWait
   \<and> pongWait * 9 < 2 ^ 63
   \<and> writeWait = 10 * Second
   \<and> writeDeadline (sock_write conn mt p) = 10 * Second
   \<and> maxMessageSize = 1024
   \<and> readConnectionPump_setup conn
       = [SetReadLimit (ws conn) 1024, SetReadDeadline (ws conn) (60 * Second),
          SetPongHandler (ws conn) (60 * Second)]
   \<and> chan_cap (broadcastBuffer (NewNamedWebSocket name isBroadcast)) = 512
   \<and> chan_cap (controlBuffer (NewNamedWebSocket name isBroadcast)) = 512"
  by (simp add: pongWait_def pingPeriod_def writeWait_def Second_def maxMessageSize_def
      sock_write_def readConnectionPump_setup_def NewNamedWebSocket_def make_chan_def)

subsection \<open>The dispatch loop on a closed buffer\<close>

text \<open>
  Claim C2 (shutdown step), evaluated on the code. With the control buffer closed and
  drained the receive yields the nil message and \<open>ok = False\<close>; the iteration then reads
  the source of that nil message and faults before any close frame is written, so the
  loop does not return normally. The broadcast buffer's case behaves the same way.
\<close>

theorem messageDispatcher_closed_buffer_faults:
  "recv (controlBuffer chat_control_closed) = Some (None, False, controlBuffer chat_control_closed)
   \<and> messageDispatcher_iter ControlCase chat_control_closed = Inl NilDereference
   \<and> messageDispatcher [ControlCase] chat_control_closed = Inl NilDereference
   \<and> messageDispatcher_iter BroadcastCase chat_broadcast_closed = Inl NilDereference"
  by (simp add: chat_control_closed_def chat_broadcast_closed_def ex_defs
      messageDispatcher_iter_def recv_def)

subsection \<open>The write pump\<close>

lemma writeConnectionPump_loop_never_returns:
  "writeConnectionPump_loop conn ticks =
     (Continue, replicate (length ticks) (sock_write conn PingMessage []))"
  by (induction ticks) auto

lemma writeConnectionPump_never_returns:
  "writeConnectionPump sock conn ticks =
     Inr (Continue, sock,
          NewTicker pingPeriod
            # map Write (replicate (length ticks) (sock_write conn PingMessage [])))"
  by (simp add: writeConnectionPump_def writeConnectionPump_loop_never_returns)

text \<open>
  Claim C3 (exit on a failed probe), evaluated on the code. After two ticks whose probe
  writes both fail, the pump is still in its loop: it has written two probes, has not
  stopped the ticker or closed the stream, and the connection is still in the channel.
\<close>

theorem writeConnectionPump_ignores_failed_probe:
  "writeConnectionPump chatA clientA [False, False] =
     Inr (Continue, chatA,
          [NewTicker pingPeriod, Write (sock_write clientA PingMessage []),
           Write (sock_write clientA PingMessage [])])
   \<and> clientA \<in> set (connections chatA)"
  by (simp add: writeConnectionPump_never_returns chatA_def)

subsection \<open>No operation closes a buffer\<close>

lemma NewNamedWebSocket_open: "buffers_open (NewNamedWebSocket name isBroadcast)"
  by (simp add: buffers_open_def NewNamedWebSocket_def make_chan_def)

lemma advertise_open: "buffers_open s \<Longrightarrow> buffers_open (advertise s)"
  by (simp add: buffers_open_def advertise_def)

lemma addConnection_open:
  "buffers_open s \<Longrightarrow> addConnection s conn = Inr (s', fs) \<Longrightarrow> buffers_open s'"
  using addConnection_Inr [of s conn s' fs] by (simp add: buffers_open_def)

lemma serve_open:
  "buffers_open s \<Longrightarrow> serve s r up = Inr (c, s', es) \<Longrightarrow> buffers_open s'"
  by (auto simp: serve_def Let_def split: if_splits upgrade.splits sum.splits
      dest: addConnection_open)

lemma unlink_open:
  "buffers_open s \<Longrightarrow> buffers_open (s\<lparr>connections := cs\<rparr>)"
  by (simp add: buffers_open_def)

lemma removeConnection_open:
  "buffers_open s \<Longrightarrow> removeConnection s conn = Inr s' \<Longrightarrow> buffers_open s'"
  by (auto simp: removeConnection_def Let_def buffers_open_def
      split: if_splits sum.splits dest: send_closed)

lemma readConnectionPump_loop_open:
  "buffers_open s \<Longrightarrow> readConnectionPump_loop s conn reads = Inr (st, s') \<Longrightarrow> buffers_open s'"
proof (induction s conn reads rule: readConnectionPump_loop.induct)
  case (1 sock conn)
  then show ?case by simp
next
  case (2 sock conn rest)
  then show ?case by simp
next
  case (3 sock conn message rest)
  from "3.prems"(2) obtain ch where
    s: "send (broadcastBuffer sock) \<lparr>source = conn, payload = message\<rparr> = Inr ch"
    and l: "readConnectionPump_loop (sock\<lparr>broadcastBuffer := ch\<rparr>) conn rest = Inr (st, s')"
    by (auto split: sum.splits)
  have "buffers_open (sock\<lparr>broadcastBuffer := ch\<rparr>)"
    using "3.prems"(1) send_closed [OF s] by (simp add: buffers_open_def)
  with "3.IH" [OF s] l show ?case by simp
qed

lemma readConnectionPump_open:
  "buffers_open s \<Longrightarrow> readConnectionPump s conn reads = Inr (st, s', es) \<Longrightarrow> buffers_open s'"
  by (auto simp: readConnectionPump_def readConnectionPump_deferred_def
      split: sum.splits loop_status.splits prod.splits
      dest: readConnectionPump_loop_open removeConnection_open)

lemma writeConnectionPump_open:
  "buffers_open s \<Longrightarrow> writeConnectionPump s conn ticks = Inr (st, s', es) \<Longrightarrow> buffers_open s'"
  by (simp add: writeConnectionPump_never_returns)

lemma messageDispatcher_iter_open:
  "buffers_open s \<Longrightarrow> messageDispatcher_iter c s = Inr (st, s', fs) \<Longrightarrow> buffers_open s'"
  by (auto simp: messageDispatcher_iter_def Let_def buffers_open_def
      split: select_case.splits option.splits if_splits prod.splits dest: recv_closed)

lemma messageDispatcher_iter_continues:
  "buffers_open s \<Longrightarrow> messageDispatcher_iter c s = Inr (st, s', fs) \<Longrightarrow> st = Continue"
  by (auto simp: messageDispatcher_iter_def Let_def buffers_open_def
      split: select_case.splits option.splits if_splits prod.splits dest: recv_open)

lemma messageDispatcher_iter_no_nil:
  "buffers_open s \<Longrightarrow> messageDispatcher_iter c s \<noteq> Inl NilDereference"
  by (auto simp: messageDispatcher_iter_def Let_def buffers_open_def
      split: select_case.splits option.splits if_splits prod.splits dest: recv_open)

text \<open>With both buffers open the loop neither returns nor faults on a nil message, along
  any schedule.\<close>

lemma messageDispatcher_open:
  "buffers_open s \<Longrightarrow>
   messageDispatcher cs s \<noteq> Inl NilDereference \<and>
   (\<forall>s' fs. messageDispatcher cs s \<noteq> Inr (Return, s', fs))"
proof (induction cs arbitrary: s)
  case Nil
  then show ?case by simp
next
  case (Cons c cs)
  show ?case
  proof (cases "messageDispatcher_iter c s")
    case (Inl f)
    with messageDispatcher_iter_no_nil [OF Cons.prems, of c] show ?thesis by simp
  next
    case (Inr res)
    obtain st s1 fs where res: "res = (st, s1, fs)" by (cases res)
    have st: "st = Continue"
      using messageDispatcher_iter_continues [OF Cons.prems] Inr res by simp
    have "buffers_open s1"
      using messageDispatcher_iter_open [OF Cons.prems] Inr res by simp
    from Cons.IH [OF this] show ?thesis
      using Inr res st by (auto split: sum.splits)
  qed
qed

lemma reachable_open: "reachable s \<Longrightarrow> buffers_open s"
proof (induction rule: reachable.induct)
  case (created name isBroadcast)
  show ?case by (rule NewNamedWebSocket_open)
next
  case (advertised s)
  then show ?case by (simp add: advertise_open)
next
  case (served s r up c s' es)
  then show ?case by (blast intro: serve_open)
next
  case (added s conn s' fs)
  then show ?case by (blast intro: addConnection_open)
next
  case (read s conn reads st s' es)
  then show ?case by (blast intro: readConnectionPump_open)
next
  case (pinged s conn ticks st s' es)
  then show ?case by (blast intro: writeConnectionPump_open)
next
  case (unlinked s conn)
  then show ?case by (simp add: unlink_open)
next
  case (removed s conn s')
  then show ?case by (blast intro: removeConnection_open)
next
  case (dispatched s ch st s' fs)
  then show ?case by (blast intro: messageDispatcher_iter_open)
qed

text \<open>
  Claim C10 (the buffers are never closed). In every state that the operations of
  socket.go can produce from a new hub, in any order and with any arguments, neither
  buffer is closed; from such a state the dispatch loop, along every schedule of its
  select, never returns through the closed-buffer branch and never faults on a nil
  message, so the channel does not reach its terminal state.
\<close>

theorem buffers_never_closed:
  assumes "reachable s"
  shows "\<not> chan_closed (broadcastBuffer s) \<and> \<not> chan_closed (controlBuffer s)
         \<and> (\<forall>cs. messageDispatcher cs s \<noteq> Inl NilDereference
                \<and> (\<forall>s' fs. messageDispatcher cs s \<noteq> Inr (Return, s', fs)))"
  using reachable_open [OF assms] messageDispatcher_open [of s]
  by (simp add: buffers_open_def)

theorem buffers_never_closed_witness:
  "reachable chatB_admitted
   \<and> \<not> chan_closed (broadcastBuffer chatB_admitted)
   \<and> \<not> chan_closed (controlBuffer chatB_admitted)
   \<and> messageDispatcher [ControlCase] chatB_admitted
       = Inr (Continue, chat\<lparr>connections := [clientB]\<rparr>, [])
   \<and> messageDispatcher [ControlCase] chatB_admitted \<noteq> Inl NilDereference
   \<and> messageDispatcher [ControlCase] chatB_admitted
       \<noteq> Inr (Return, chat\<lparr>connections := [clientB]\<rparr>, [])"
proof -
  have s: "serve (NewNamedWebSocket ''chat'' False)
             \<lparr>reqMethod = ''GET'', proxyHeader = []\<rparr> (Upgraded 2)
             = Inr (Some clientB, chatB_admitted, [])"
    by (simp add: serve_def addConnection_def send_def chatB_admitted_def ex_defs Let_def)
  have r: "reachable chatB_admitted"
    by (rule reachable.served [OF reachable.created s])
  have d: "messageDispatcher [ControlCase] chatB_admitted
             = Inr (Continue, chat\<lparr>connections := [clientB]\<rparr>, [])"
    by (simp add: messageDispatcher_iter_def recv_def chatB_admitted_def ex_defs broadcast_def)
  show ?thesis using r d buffers_never_closed [OF r] by simp
qed

end
